theory Spec2Isabelle
  imports Main "HOL-Library.Word"
begin

section \<open>Solo machine light client: header verification and state update\<close>

text \<open>
  A shallow embedding of \<^verbatim>\<open>modules/light-clients/06-solomachine/types/update.go\<close>:
  \<^verbatim>\<open>CheckHeaderAndUpdateState\<close>, \<^verbatim>\<open>VerifyHeader\<close> and \<^verbatim>\<open>update\<close>.

  \<^item> Go's \<^verbatim>\<open>uint64\<close> is \<open>64 word\<close>: \<open>+\<close> wraps and \<open><\<close> is the unsigned order.
  \<^item> A Go pointer to a consensus state is an address into an explicit heap (or nil);
    a read through nil panics. Reads never change the heap; only \<^verbatim>\<open>update\<close> allocates.
  \<^item> A call either panics or returns; a returned \<^verbatim>\<open>error\<close> is \<open>Some e\<close>, nil is \<open>None\<close>.
  \<^item> The functions of the package that this file calls but does not define are
    parameters, collected in a record.
\<close>

subsection \<open>Values\<close>

type_synonym uint64 = "64 word"
type_synonym bytes = "8 word list"

text \<open>An encoded public key (a protobuf \<^verbatim>\<open>Any\<close>), a decoded one, decoded signature data.\<close>

type_synonym AnyPubKey = bytes
type_synonym PubKey = bytes
type_synonym SignatureData = bytes

subsection \<open>Errors\<close>

text \<open>
  The registered errors the file names, errors that come from the called functions,
  and \<^verbatim>\<open>sdkerrors.Wrap\<close>/\<^verbatim>\<open>Wrapf\<close> of an error with a description. A description is
  a formatted text or the text \<^verbatim>\<open>err.Error()\<close> of another error.
  \<open>ErrInvalidSignature\<close> is the error the specification names for a failed signature
  check; nothing in \<^verbatim>\<open>update.go\<close> produces it.
\<close>

datatype error =
    ClientErrInvalidHeader
  | ErrInvalidHeader
  | SdkErrInvalidType
  | ErrInvalidSignature
  | Foreign string
  | Wrap error description
and description =
    Text string
  | ErrorText error

text \<open>The verb \<^verbatim>\<open>%d\<close> of an unsigned integer: its decimal digits.\<close>

function decimal :: "nat \<Rightarrow> string" where
  "decimal n =
     (if n < 10 then [''0123456789'' ! n]
      else decimal (n div 10) @ [''0123456789'' ! (n mod 10)])"
  by pat_completeness auto
termination
  by (relation "measure id") auto

declare decimal.simps [simp del]

subsection \<open>Outcome of a call\<close>

datatype 'a outcome = Panic | Return 'a

subsection \<open>Data model\<close>

record ConsensusState =
  PublicKey :: AnyPubKey
  Diversifier :: string
  Timestamp :: uint64

text \<open>The heap of consensus states; an address is an index, \<open>None\<close> is the nil pointer.\<close>

type_synonym heap = "ConsensusState list"
type_synonym ptr = "nat option"

definition deref :: "heap \<Rightarrow> ptr \<Rightarrow> ConsensusState option" where
  "deref heap p =
     (case p of None \<Rightarrow> None
      | Some a \<Rightarrow> if a < length heap then Some (heap ! a) else None)"

record ClientState =
  Sequence :: uint64
  ConsensusState :: ptr

record Header =
  Sequence :: uint64
  Timestamp :: uint64
  Signature :: bytes
  NewPublicKey :: AnyPubKey
  NewDiversifier :: string

text \<open>
  Modelled from the spec: the declarations of \<^verbatim>\<open>DuplicateSignatures\<close> and of the signed
  statements it holds are not in the source file. Section 3: a proof is
  \<^verbatim>\<open>{ SignatureOne, SignatureTwo }\<close>, each a structure with a sequence, a timestamp, a
  diversifier and a signed payload, carrying the signature over them.
\<close>

record SignatureAndData =
  Signature :: bytes
  Sequence :: uint64
  Timestamp :: uint64
  Diversifier :: string
  Data :: bytes

record DuplicateSignatures =
  SignatureOne :: "SignatureAndData option"
  SignatureTwo :: "SignatureAndData option"

text \<open>
  The interface value \<^verbatim>\<open>exported.Header\<close> by its dynamic type: a \<^verbatim>\<open>*Header\<close>, a
  \<^verbatim>\<open>*DuplicateSignatures\<close> (either pointer may be nil), or anything else, kept by the
  text that \<^verbatim>\<open>%s\<close> prints for it.
\<close>

datatype header_iface =
    HeaderP "Header option"
  | DuplicateSignaturesP "DuplicateSignatures option"
  | OtherHeader string

subsection \<open>The functions the file calls\<close>

text \<open>
  \<^verbatim>\<open>HeaderSignBytes\<close>, \<^verbatim>\<open>UnmarshalSignatureData\<close>, \<^verbatim>\<open>GetPubKey\<close>, \<^verbatim>\<open>VerifySignature\<close> and
  \<^verbatim>\<open>verifySignatureAndData\<close> are defined elsewhere in the package. Each is a
  parameter: a function of its arguments (the codec is part of the function) that
  may panic, return an error, or return its value.
\<close>

record env =
  HeaderSignBytes :: "Header \<Rightarrow> (error + bytes) outcome"
  UnmarshalSignatureData :: "bytes \<Rightarrow> (error + SignatureData) outcome"
  GetPubKey :: "ConsensusState \<Rightarrow> (error + PubKey) outcome"
  VerifySignature :: "PubKey \<Rightarrow> bytes \<Rightarrow> SignatureData \<Rightarrow> (error option) outcome"
  verifySignatureAndData ::
    "heap \<Rightarrow> ClientState \<Rightarrow> DuplicateSignatures \<Rightarrow> SignatureAndData option
       \<Rightarrow> (error option) outcome"

subsection \<open>VerifyHeader\<close>

text \<open>The two formatted descriptions of \<^verbatim>\<open>Wrapf\<close>.\<close>

definition sequence_mismatch_text :: "uint64 \<Rightarrow> uint64 \<Rightarrow> string" where
  "sequence_mismatch_text hs cs =
     ''header sequence does not match the client state sequence ('' @
     decimal (unat hs) @ '' != '' @ decimal (unat cs) @ '')''"

definition timestamp_regression_text :: "uint64 \<Rightarrow> uint64 \<Rightarrow> string" where
  "timestamp_regression_text ht ct =
     ''header timestamp is less than to the consensus state timestamp ('' @
     decimal (unat ht) @ '' < '' @ decimal (unat ct) @ '')''"

fun VerifyHeader :: "env \<Rightarrow> heap \<Rightarrow> ClientState \<Rightarrow> header_iface \<Rightarrow> (error option) outcome" where
  "VerifyHeader env heap cs (HeaderP None) = Panic"
| "VerifyHeader env heap cs (HeaderP (Some header)) =
     (if Header.Sequence header \<noteq> ClientState.Sequence cs
      then Return (Some (Wrap ClientErrInvalidHeader
             (Text (sequence_mismatch_text (Header.Sequence header) (ClientState.Sequence cs)))))
      else
        (case deref heap (ClientState.ConsensusState cs) of
           None \<Rightarrow> Panic
         | Some consensusState \<Rightarrow>
             if Header.Timestamp header < ConsensusState.Timestamp consensusState
             then Return (Some (Wrap ClientErrInvalidHeader
                    (Text (timestamp_regression_text (Header.Timestamp header)
                             (ConsensusState.Timestamp consensusState)))))
             else
               (case HeaderSignBytes env header of
                  Panic \<Rightarrow> Panic
                | Return (Inl err) \<Rightarrow> Return (Some err)
                | Return (Inr data) \<Rightarrow>
                    (case UnmarshalSignatureData env (Header.Signature header) of
                       Panic \<Rightarrow> Panic
                     | Return (Inl err) \<Rightarrow> Return (Some err)
                     | Return (Inr sigData) \<Rightarrow>
                         (case GetPubKey env consensusState of
                            Panic \<Rightarrow> Panic
                          | Return (Inl err) \<Rightarrow> Return (Some err)
                          | Return (Inr publicKey) \<Rightarrow>
                              (case VerifySignature env publicKey data sigData of
                                 Panic \<Rightarrow> Panic
                               | Return (Some err) \<Rightarrow>
                                   Return (Some (Wrap ErrInvalidHeader (ErrorText err)))
                               | Return None \<Rightarrow> Return None))))))"
| "VerifyHeader env heap cs (DuplicateSignaturesP None) = Panic"
| "VerifyHeader env heap cs (DuplicateSignaturesP (Some header)) =
     (case verifySignatureAndData env heap cs header (SignatureOne header) of
        Panic \<Rightarrow> Panic
      | Return (Some err) \<Rightarrow> Return (Some (Wrap err (Text ''failed to verify signature one'')))
      | Return None \<Rightarrow>
          (case verifySignatureAndData env heap cs header (SignatureTwo header) of
             Panic \<Rightarrow> Panic
           | Return (Some err) \<Rightarrow>
               Return (Some (Wrap err (Text ''failed to verify signature two'')))
           | Return None \<Rightarrow> Return None))"
| "VerifyHeader env heap cs (OtherHeader s) =
     Return (Some (Wrap SdkErrInvalidType (Text (''unexpected type for header: '' @ s))))"

subsection \<open>update\<close>

text \<open>
  \<^verbatim>\<open>update\<close> allocates the new consensus state, then writes the two fields of the client
  state it was given. Its caller passes the address of its own copy of the receiver
  (a Go value receiver), so the client state is a value here and the written copy is
  returned; the consensus state is returned by its address.
\<close>

definition update :: "heap \<Rightarrow> ClientState \<Rightarrow> Header \<Rightarrow> heap \<times> ClientState \<times> nat" where
  "update heap clientState header =
     (let consensusState =
            \<lparr> PublicKey = NewPublicKey header,
              Diversifier = NewDiversifier header,
              Timestamp = Header.Timestamp header \<rparr>;
          p = length heap
      in (heap @ [consensusState],
          clientState \<lparr> ClientState.Sequence := ClientState.Sequence clientState + 1,
                        ClientState.ConsensusState := Some p \<rparr>,
          p))"

subsection \<open>CheckHeaderAndUpdateState\<close>

text \<open>
  The result is the heap after the call and the three returned values: the new client
  state (nil is \<open>None\<close>), the address of the new consensus state, and the error. The
  arguments \<^verbatim>\<open>ctx\<close> and \<^verbatim>\<open>clientStore\<close> are not used by the function.
\<close>

definition CheckHeaderAndUpdateState ::
  "env \<Rightarrow> heap \<Rightarrow> ClientState \<Rightarrow> header_iface
     \<Rightarrow> (heap \<times> ClientState option \<times> ptr \<times> error option) outcome" where
  "CheckHeaderAndUpdateState env heap cs header =
     (case VerifyHeader env heap cs header of
        Panic \<Rightarrow> Panic
      | Return (Some err) \<Rightarrow> Return (heap, None, None, Some err)
      | Return None \<Rightarrow>
          (case header of
             HeaderP (Some h) \<Rightarrow>
               (case update heap cs h of
                  (heap', clientState, consensusState) \<Rightarrow>
                    Return (heap', Some clientState, Some consensusState, None))
           | HeaderP None \<Rightarrow> Panic
           | _ \<Rightarrow> Return (heap, None, None, None)))"

subsection \<open>The same functions, with called functions that have state\<close>

text \<open>
  Whether two calls with equal arguments agree depends on the called functions: Go
  lets them read and write state of their own. Here each of them takes the state of
  the rest of the program (the world) and returns the new one, and \<^verbatim>\<open>VerifyHeader\<close> and
  \<^verbatim>\<open>CheckHeaderAndUpdateState\<close> pass it from call to call in the order of the source. A
  panic ends the run.
\<close>

record 'w wenv =
  HeaderSignBytesW :: "'w \<Rightarrow> Header \<Rightarrow> ((error + bytes) \<times> 'w) outcome"
  UnmarshalSignatureDataW :: "'w \<Rightarrow> bytes \<Rightarrow> ((error + SignatureData) \<times> 'w) outcome"
  GetPubKeyW :: "'w \<Rightarrow> ConsensusState \<Rightarrow> ((error + PubKey) \<times> 'w) outcome"
  VerifySignatureW ::
    "'w \<Rightarrow> PubKey \<Rightarrow> bytes \<Rightarrow> SignatureData \<Rightarrow> (error option \<times> 'w) outcome"
  verifySignatureAndDataW ::
    "'w \<Rightarrow> heap \<Rightarrow> ClientState \<Rightarrow> DuplicateSignatures \<Rightarrow> SignatureAndData option
       \<Rightarrow> (error option \<times> 'w) outcome"

fun VerifyHeaderW ::
  "'w wenv \<Rightarrow> 'w \<Rightarrow> heap \<Rightarrow> ClientState \<Rightarrow> header_iface \<Rightarrow> (error option \<times> 'w) outcome" where
  "VerifyHeaderW env w heap cs (HeaderP None) = Panic"
| "VerifyHeaderW env w heap cs (HeaderP (Some header)) =
     (if Header.Sequence header \<noteq> ClientState.Sequence cs
      then Return (Some (Wrap ClientErrInvalidHeader
             (Text (sequence_mismatch_text (Header.Sequence header) (ClientState.Sequence cs)))),
             w)
      else
        (case deref heap (ClientState.ConsensusState cs) of
           None \<Rightarrow> Panic
         | Some consensusState \<Rightarrow>
             if Header.Timestamp header < ConsensusState.Timestamp consensusState
             then Return (Some (Wrap ClientErrInvalidHeader
                    (Text (timestamp_regression_text (Header.Timestamp header)
                             (ConsensusState.Timestamp consensusState)))), w)
             else
               (case HeaderSignBytesW env w header of
                  Panic \<Rightarrow> Panic
                | Return (Inl err, w1) \<Rightarrow> Return (Some err, w1)
                | Return (Inr data, w1) \<Rightarrow>
                    (case UnmarshalSignatureDataW env w1 (Header.Signature header) of
                       Panic \<Rightarrow> Panic
                     | Return (Inl err, w2) \<Rightarrow> Return (Some err, w2)
                     | Return (Inr sigData, w2) \<Rightarrow>
                         (case GetPubKeyW env w2 consensusState of
                            Panic \<Rightarrow> Panic
                          | Return (Inl err, w3) \<Rightarrow> Return (Some err, w3)
                          | Return (Inr publicKey, w3) \<Rightarrow>
                              (case VerifySignatureW env w3 publicKey data sigData of
                                 Panic \<Rightarrow> Panic
                               | Return (Some err, w4) \<Rightarrow>
                                   Return (Some (Wrap ErrInvalidHeader (ErrorText err)), w4)
                               | Return (None, w4) \<Rightarrow> Return (None, w4)))))))"
| "VerifyHeaderW env w heap cs (DuplicateSignaturesP None) = Panic"
| "VerifyHeaderW env w heap cs (DuplicateSignaturesP (Some header)) =
     (case verifySignatureAndDataW env w heap cs header (SignatureOne header) of
        Panic \<Rightarrow> Panic
      | Return (Some err, w1) \<Rightarrow>
          Return (Some (Wrap err (Text ''failed to verify signature one'')), w1)
      | Return (None, w1) \<Rightarrow>
          (case verifySignatureAndDataW env w1 heap cs header (SignatureTwo header) of
             Panic \<Rightarrow> Panic
           | Return (Some err, w2) \<Rightarrow>
               Return (Some (Wrap err (Text ''failed to verify signature two'')), w2)
           | Return (None, w2) \<Rightarrow> Return (None, w2)))"
| "VerifyHeaderW env w heap cs (OtherHeader s) =
     Return (Some (Wrap SdkErrInvalidType (Text (''unexpected type for header: '' @ s))), w)"

definition CheckHeaderAndUpdateStateW ::
  "'w wenv \<Rightarrow> 'w \<Rightarrow> heap \<Rightarrow> ClientState \<Rightarrow> header_iface
     \<Rightarrow> ((heap \<times> ClientState option \<times> ptr \<times> error option) \<times> 'w) outcome" where
  "CheckHeaderAndUpdateStateW env w heap cs header =
     (case VerifyHeaderW env w heap cs header of
        Panic \<Rightarrow> Panic
      | Return (Some err, w') \<Rightarrow> Return ((heap, None, None, Some err), w')
      | Return (None, w') \<Rightarrow>
          (case header of
             HeaderP (Some h) \<Rightarrow>
               (case update heap cs h of
                  (heap', clientState, consensusState) \<Rightarrow>
                    Return ((heap', Some clientState, Some consensusState, None), w'))
           | HeaderP None \<Rightarrow> Panic
           | _ \<Rightarrow> Return ((heap, None, None, None), w')))"

text \<open>
  Modelled from the spec: the code of the called functions is not in the source file.
  Sections 4.1, 4.2 and 5: they are pure and deterministic, so what a call returns
  depends on its arguments only, not on the world it runs in.
\<close>

definition deterministic :: "'w wenv \<Rightarrow> bool" where
  "deterministic env \<longleftrightarrow>
     (\<forall>w w' h. map_outcome fst (HeaderSignBytesW env w h) =
                 map_outcome fst (HeaderSignBytesW env w' h)) \<and>
     (\<forall>w w' b. map_outcome fst (UnmarshalSignatureDataW env w b) =
                 map_outcome fst (UnmarshalSignatureDataW env w' b)) \<and>
     (\<forall>w w' c. map_outcome fst (GetPubKeyW env w c) =
                 map_outcome fst (GetPubKeyW env w' c)) \<and>
     (\<forall>w w' k d s. map_outcome fst (VerifySignatureW env w k d s) =
                     map_outcome fst (VerifySignatureW env w' k d s)) \<and>
     (\<forall>w w' hp cs d s. map_outcome fst (verifySignatureAndDataW env w hp cs d s) =
                         map_outcome fst (verifySignatureAndDataW env w' hp cs d s))"

text \<open>The environment of the first model that answers as the functions do in the world \<open>w\<close>.\<close>

definition at_world :: "'w wenv \<Rightarrow> 'w \<Rightarrow> env" where
  "at_world env w =
     \<lparr> HeaderSignBytes = (\<lambda>h. map_outcome fst (HeaderSignBytesW env w h)),
       UnmarshalSignatureData = (\<lambda>b. map_outcome fst (UnmarshalSignatureDataW env w b)),
       GetPubKey = (\<lambda>c. map_outcome fst (GetPubKeyW env w c)),
       VerifySignature = (\<lambda>k d s. map_outcome fst (VerifySignatureW env w k d s)),
       verifySignatureAndData =
         (\<lambda>hp cs d s. map_outcome fst (verifySignatureAndDataW env w hp cs d s)) \<rparr>"

subsection \<open>The helper of the misbehaviour path, from the specification\<close>

text \<open>
  Modelled from the spec: \<^verbatim>\<open>verifySignatureAndData\<close> is not in the source file.
  Section 4.4, steps 1 and 2, and section 4.1: each signature is verified against the
  current trusted public key, over its own claimed sign bytes (sequence, timestamp,
  diversifier and signed payload), with the primitive of the header path; a signature
  that fails verification, a malformed encoding included, is reported as
  \<^verbatim>\<open>ErrInvalidSignature\<close>. The sign-bytes constructor of section 4.2 is the parameter
  \<open>BuildSignBytes\<close>.
\<close>

definition verifySignatureAndData_spec ::
  "(string \<Rightarrow> uint64 \<Rightarrow> uint64 \<Rightarrow> bytes \<Rightarrow> bytes) \<Rightarrow> env \<Rightarrow> heap \<Rightarrow> ClientState
     \<Rightarrow> DuplicateSignatures \<Rightarrow> SignatureAndData option \<Rightarrow> (error option) outcome" where
  "verifySignatureAndData_spec BuildSignBytes env heap cs proof sigAndData =
     (case sigAndData of
        None \<Rightarrow> Panic
      | Some s \<Rightarrow>
          (case deref heap (ClientState.ConsensusState cs) of
             None \<Rightarrow> Panic
           | Some consensusState \<Rightarrow>
               (case UnmarshalSignatureData env (SignatureAndData.Signature s) of
                  Panic \<Rightarrow> Panic
                | Return (Inl err) \<Rightarrow> Return (Some ErrInvalidSignature)
                | Return (Inr sigData) \<Rightarrow>
                    (case GetPubKey env consensusState of
                       Panic \<Rightarrow> Panic
                     | Return (Inl err) \<Rightarrow> Return (Some err)
                     | Return (Inr publicKey) \<Rightarrow>
                         (case VerifySignature env publicKey
                                 (BuildSignBytes (SignatureAndData.Diversifier s)
                                    (SignatureAndData.Sequence s)
                                    (SignatureAndData.Timestamp s) (Data s))
                                 sigData of
                            Panic \<Rightarrow> Panic
                          | Return (Some err) \<Rightarrow> Return (Some ErrInvalidSignature)
                          | Return None \<Rightarrow> Return None)))))"

subsection \<open>Concrete inputs\<close>

text \<open>
  An environment in which every called function panics: a run that returns in it has
  called none of them.
\<close>

definition panic_env :: env where
  "panic_env =
     \<lparr> HeaderSignBytes = (\<lambda>_. Panic),
       UnmarshalSignatureData = (\<lambda>_. Panic),
       GetPubKey = (\<lambda>_. Panic),
       VerifySignature = (\<lambda>_ _ _. Panic),
       verifySignatureAndData = (\<lambda>_ _ _ _. Panic) \<rparr>"

text \<open>
  A small signature scheme to run the functions on: a signature of \<open>data\<close> by the key
  \<open>k\<close> is the bytes of \<open>k\<close> followed by \<open>data\<close>, the empty byte string does not decode,
  and the sign bytes of a header are its new public key followed by the low bytes of
  its sequence and timestamp.
\<close>

definition example_decode_error :: error where
  "example_decode_error =
     Wrap (Foreign ''unexpected EOF'') (Text ''failed to unmarshal proto signature data'')"

definition example_verify_error :: error where
  "example_verify_error = Foreign ''signature verification failed''"

definition example_sign_bytes :: "string \<Rightarrow> uint64 \<Rightarrow> uint64 \<Rightarrow> bytes \<Rightarrow> bytes" where
  "example_sign_bytes diversifier sequence timestamp payload =
     payload @ [ucast sequence, ucast timestamp] @ map (\<lambda>c. of_char c) diversifier"

definition example_primitives :: env where
  "example_primitives =
     \<lparr> HeaderSignBytes =
         (\<lambda>h. Return (Inr (NewPublicKey h @
                   [ucast (Header.Sequence h), ucast (Header.Timestamp h)]))),
       UnmarshalSignatureData =
         (\<lambda>b. if b = [] then Return (Inl example_decode_error) else Return (Inr b)),
       GetPubKey = (\<lambda>c. Return (Inr (PublicKey c))),
       VerifySignature =
         (\<lambda>k data sig. if sig = k @ data then Return None
                        else Return (Some example_verify_error)),
       verifySignatureAndData = (\<lambda>_ _ _ _. Panic) \<rparr>"

definition example_env :: env where
  "example_env =
     example_primitives
       \<lparr> verifySignatureAndData :=
           verifySignatureAndData_spec example_sign_bytes example_primitives \<rparr>"

definition example_heap :: heap where
  "example_heap = [\<lparr> PublicKey = [1], Diversifier = ''solo'', Timestamp = 100 \<rparr>]"

definition example_cs :: ClientState where
  "example_cs = \<lparr> ClientState.Sequence = 5, ClientState.ConsensusState = Some 0 \<rparr>"

text \<open>A header for sequence 5 at the current timestamp, signed by the current key \<open>[1]\<close>.\<close>

definition example_header :: Header where
  "example_header =
     \<lparr> Header.Sequence = 5, Header.Timestamp = 100, Header.Signature = [1, 2, 5, 100],
       NewPublicKey = [2], NewDiversifier = ''solo2'' \<rparr>"

text \<open>Headers that fail one check or several.\<close>

definition example_stale_header :: Header where
  "example_stale_header = example_header \<lparr> Header.Sequence := 4 \<rparr>"

definition example_future_header :: Header where
  "example_future_header = example_header \<lparr> Header.Sequence := 6 \<rparr>"

definition example_all_wrong_header :: Header where
  "example_all_wrong_header =
     example_header \<lparr> Header.Sequence := 4, Header.Timestamp := 99, Header.Signature := [] \<rparr>"

definition example_early_header :: Header where
  "example_early_header = example_header \<lparr> Header.Timestamp := 99, Header.Signature := [] \<rparr>"

definition example_malformed_header :: Header where
  "example_malformed_header = example_header \<lparr> Header.Signature := [] \<rparr>"

text \<open>Signed by the proposed new key \<open>[2]\<close>, not by the current key \<open>[1]\<close>.\<close>

definition example_other_key_header :: Header where
  "example_other_key_header = example_header \<lparr> Header.Signature := [2, 2, 5, 100] \<rparr>"

definition example_stale_other_key_header :: Header where
  "example_stale_other_key_header =
     example_header \<lparr> Header.Sequence := 4, Header.Signature := [2, 2, 4, 100] \<rparr>"

text \<open>A statement at sequence 5 over \<open>payload\<close>, signed by the key \<open>k\<close>.\<close>

definition example_statement :: "bytes \<Rightarrow> bytes \<Rightarrow> SignatureAndData" where
  "example_statement k payload =
     \<lparr> SignatureAndData.Signature = k @ example_sign_bytes ''solo'' 5 100 payload,
       SignatureAndData.Sequence = 5, SignatureAndData.Timestamp = 100,
       SignatureAndData.Diversifier = ''solo'', Data = payload \<rparr>"

text \<open>
  Three proofs: two statements of the current key over different payloads; the same
  statement twice; and a second statement signed by another key.
\<close>

definition example_proof :: DuplicateSignatures where
  "example_proof =
     \<lparr> SignatureOne = Some (example_statement [1] [7]),
       SignatureTwo = Some (example_statement [1] [8]) \<rparr>"

definition example_same_proof :: DuplicateSignatures where
  "example_same_proof =
     \<lparr> SignatureOne = Some (example_statement [1] [7]),
       SignatureTwo = Some (example_statement [1] [7]) \<rparr>"

definition example_forged_proof :: DuplicateSignatures where
  "example_forged_proof =
     \<lparr> SignatureOne = Some (example_statement [1] [7]),
       SignatureTwo = Some (example_statement [9] [8]) \<rparr>"

text \<open>A client state at the largest sequence, and a header for it signed by \<open>[1]\<close>.\<close>

definition example_max_cs :: ClientState where
  "example_max_cs =
     \<lparr> ClientState.Sequence = 18446744073709551615, ClientState.ConsensusState = Some 0 \<rparr>"

definition example_max_header :: Header where
  "example_max_header =
     \<lparr> Header.Sequence = 18446744073709551615, Header.Timestamp = 100,
       Header.Signature = [1, 2, 255, 100], NewPublicKey = [2], NewDiversifier = ''solo2'' \<rparr>"

text \<open>
  Called functions with state: \<open>counting\<close> answers as a given environment does and counts
  the calls in the world; \<open>flaky\<close> is \<open>counting\<close> with a verification that fails during
  the first four calls of the run and succeeds afterwards.
\<close>

definition counting :: "env \<Rightarrow> nat wenv" where
  "counting env =
     \<lparr> HeaderSignBytesW = (\<lambda>w h. map_outcome (\<lambda>r. (r, Suc w)) (HeaderSignBytes env h)),
       UnmarshalSignatureDataW =
         (\<lambda>w b. map_outcome (\<lambda>r. (r, Suc w)) (UnmarshalSignatureData env b)),
       GetPubKeyW = (\<lambda>w c. map_outcome (\<lambda>r. (r, Suc w)) (GetPubKey env c)),
       VerifySignatureW =
         (\<lambda>w k d s. map_outcome (\<lambda>r. (r, Suc w)) (VerifySignature env k d s)),
       verifySignatureAndDataW =
         (\<lambda>w hp cs d s. map_outcome (\<lambda>r. (r, Suc w)) (verifySignatureAndData env hp cs d s)) \<rparr>"

definition flaky :: "nat wenv" where
  "flaky =
     (counting example_env)
       \<lparr> VerifySignatureW :=
           (\<lambda>w k d s. Return (if w < 4 then Some example_verify_error else None, Suc w)) \<rparr>"

lemmas example_defs =
  example_env_def example_primitives_def example_heap_def example_cs_def example_header_def
  example_stale_header_def example_future_header_def example_all_wrong_header_def
  example_early_header_def example_malformed_header_def example_other_key_header_def
  example_stale_other_key_header_def example_max_cs_def example_max_header_def

lemmas example_proof_defs =
  example_statement_def example_sign_bytes_def example_proof_def example_same_proof_def
  example_forged_proof_def verifySignatureAndData_spec_def

section \<open>Properties\<close>

subsection \<open>The three functions, case by case\<close>

declare VerifyHeader.simps [simp del]
declare VerifyHeaderW.simps [simp del]

lemma VerifyHeader_sequence_mismatch:
  "Header.Sequence h \<noteq> ClientState.Sequence cs \<Longrightarrow>
   VerifyHeader env heap cs (HeaderP (Some h)) =
     Return (Some (Wrap ClientErrInvalidHeader
       (Text (sequence_mismatch_text (Header.Sequence h) (ClientState.Sequence cs)))))"
  by (simp add: VerifyHeader.simps)

lemma VerifyHeader_timestamp_regression:
  "Header.Sequence h = ClientState.Sequence cs \<Longrightarrow>
   deref heap (ClientState.ConsensusState cs) = Some c \<Longrightarrow>
   Header.Timestamp h < ConsensusState.Timestamp c \<Longrightarrow>
   VerifyHeader env heap cs (HeaderP (Some h)) =
     Return (Some (Wrap ClientErrInvalidHeader
       (Text (timestamp_regression_text (Header.Timestamp h) (ConsensusState.Timestamp c)))))"
  by (simp add: VerifyHeader.simps)

lemma VerifyHeader_signature_step:
  "Header.Sequence h = ClientState.Sequence cs \<Longrightarrow>
   deref heap (ClientState.ConsensusState cs) = Some c \<Longrightarrow>
   \<not> Header.Timestamp h < ConsensusState.Timestamp c \<Longrightarrow>
   HeaderSignBytes env h = Return (Inr data) \<Longrightarrow>
   UnmarshalSignatureData env (Header.Signature h) = Return (Inr sigData) \<Longrightarrow>
   GetPubKey env c = Return (Inr publicKey) \<Longrightarrow>
   VerifyHeader env heap cs (HeaderP (Some h)) =
     (case VerifySignature env publicKey data sigData of
        Panic \<Rightarrow> Panic
      | Return (Some err) \<Rightarrow> Return (Some (Wrap ErrInvalidHeader (ErrorText err)))
      | Return None \<Rightarrow> Return None)"
  by (simp add: VerifyHeader.simps)

lemma CheckHeaderAndUpdateState_rejects:
  "VerifyHeader env heap cs hdr = Return (Some e) \<Longrightarrow>
   CheckHeaderAndUpdateState env heap cs hdr = Return (heap, None, None, Some e)"
  by (simp add: CheckHeaderAndUpdateState_def)

lemma CheckHeaderAndUpdateState_panics:
  "VerifyHeader env heap cs hdr = Panic \<Longrightarrow> CheckHeaderAndUpdateState env heap cs hdr = Panic"
  by (simp add: CheckHeaderAndUpdateState_def)

lemma CheckHeaderAndUpdateState_accepts:
  "VerifyHeader env heap cs (HeaderP (Some h)) = Return None \<Longrightarrow>
   CheckHeaderAndUpdateState env heap cs (HeaderP (Some h)) =
     Return (heap @ [\<lparr> PublicKey = NewPublicKey h, Diversifier = NewDiversifier h,
                        Timestamp = Header.Timestamp h \<rparr>],
             Some (cs \<lparr> ClientState.Sequence := ClientState.Sequence cs + 1,
                        ClientState.ConsensusState := Some (length heap) \<rparr>),
             Some (length heap), None)"
  by (simp add: CheckHeaderAndUpdateState_def update_def Let_def)

lemma CheckHeaderAndUpdateState_no_header:
  "VerifyHeader env heap cs hdr = Return None \<Longrightarrow> (\<And>h. hdr \<noteq> HeaderP h) \<Longrightarrow>
   CheckHeaderAndUpdateState env heap cs hdr = Return (heap, None, None, None)"
  by (cases hdr) (auto simp: CheckHeaderAndUpdateState_def)

lemma VerifyHeader_nil_header_panics [simp]: "VerifyHeader env heap cs (HeaderP None) \<noteq> Return r"
  by (simp add: VerifyHeader.simps)

lemma CheckHeaderAndUpdateState_cases:
  assumes "CheckHeaderAndUpdateState env heap cs hdr = Return (heap', rcs, rcons, rerr)"
  shows "(\<exists>e. VerifyHeader env heap cs hdr = Return (Some e) \<and>
              heap' = heap \<and> rcs = None \<and> rcons = None \<and> rerr = Some e)
       \<or> (\<exists>h. hdr = HeaderP (Some h) \<and> VerifyHeader env heap cs hdr = Return None \<and>
              heap' = heap @ [\<lparr> PublicKey = NewPublicKey h, Diversifier = NewDiversifier h,
                                 Timestamp = Header.Timestamp h \<rparr>] \<and>
              rcs = Some (cs \<lparr> ClientState.Sequence := ClientState.Sequence cs + 1,
                                ClientState.ConsensusState := Some (length heap) \<rparr>) \<and>
              rcons = Some (length heap) \<and> rerr = None)
       \<or> ((\<forall>h. hdr \<noteq> HeaderP h) \<and> VerifyHeader env heap cs hdr = Return None \<and>
              heap' = heap \<and> rcs = None \<and> rcons = None \<and> rerr = None)"
proof (cases "VerifyHeader env heap cs hdr")
  case Panic
  with assms show ?thesis by (simp add: CheckHeaderAndUpdateState_panics)
next
  case (Return r)
  show ?thesis
  proof (cases r)
    case (Some e)
    with Return have "CheckHeaderAndUpdateState env heap cs hdr = Return (heap, None, None, Some e)"
      by (simp add: CheckHeaderAndUpdateState_rejects)
    with assms have "heap' = heap \<and> rcs = None \<and> rcons = None \<and> rerr = Some e" by simp
    with Return Some show ?thesis by simp
  next
    case None
    with Return have ok: "VerifyHeader env heap cs hdr = Return None" by simp
    show ?thesis
    proof (cases "\<exists>h. hdr = HeaderP h")
      case True
      then obtain ho where ho: "hdr = HeaderP ho" by blast
      with ok obtain h where h: "ho = Some h" by (cases ho) auto
      from ok ho h
      have "CheckHeaderAndUpdateState env heap cs hdr =
              Return (heap @ [\<lparr> PublicKey = NewPublicKey h, Diversifier = NewDiversifier h,
                                 Timestamp = Header.Timestamp h \<rparr>],
                      Some (cs \<lparr> ClientState.Sequence := ClientState.Sequence cs + 1,
                                 ClientState.ConsensusState := Some (length heap) \<rparr>),
                      Some (length heap), None)"
        by (simp add: CheckHeaderAndUpdateState_accepts)
      with assms
      have "heap' = heap @ [\<lparr> PublicKey = NewPublicKey h, Diversifier = NewDiversifier h,
                                 Timestamp = Header.Timestamp h \<rparr>] \<and>
            rcs = Some (cs \<lparr> ClientState.Sequence := ClientState.Sequence cs + 1,
                                 ClientState.ConsensusState := Some (length heap) \<rparr>) \<and>
            rcons = Some (length heap) \<and> rerr = None"
        by auto
      with ok ho h show ?thesis by simp
    next
      case False
      with ok have "CheckHeaderAndUpdateState env heap cs hdr = Return (heap, None, None, None)"
        by (simp add: CheckHeaderAndUpdateState_no_header)
      with assms have "heap' = heap \<and> rcs = None \<and> rcons = None \<and> rerr = None" by simp
      with ok False show ?thesis by simp
    qed
  qed
qed

lemma deref_append_old: "a < length heap \<Longrightarrow> deref (heap @ [c]) (Some a) = deref heap (Some a)"
  by (simp add: deref_def nth_append)

subsection \<open>Sequence check\<close>

text \<open>
  Claim C2. A header whose sequence differs from the client state's sequence, whether
  lower or higher, is rejected: the call returns the unchanged heap, no client state,
  no consensus state, and \<^verbatim>\<open>clienttypes.ErrInvalidHeader\<close> wrapped with the description
  of the mismatch.
\<close>

theorem C2_sequence_mismatch_rejected:
  assumes "Header.Sequence h \<noteq> ClientState.Sequence cs"
  shows "CheckHeaderAndUpdateState env heap cs (HeaderP (Some h)) =
           Return (heap, None, None,
             Some (Wrap ClientErrInvalidHeader
               (Text (sequence_mismatch_text (Header.Sequence h) (ClientState.Sequence cs)))))"
  using assms by (simp add: CheckHeaderAndUpdateState_rejects VerifyHeader_sequence_mismatch)

theorem C2_sequence_mismatch_rejected_witness:
  "Header.Sequence example_stale_header < ClientState.Sequence example_cs \<and>
   CheckHeaderAndUpdateState example_env example_heap example_cs
       (HeaderP (Some example_stale_header)) =
     Return (example_heap, None, None,
       Some (Wrap ClientErrInvalidHeader
         (Text ''header sequence does not match the client state sequence (4 != 5)''))) \<and>
   ClientState.Sequence example_cs < Header.Sequence example_future_header \<and>
   CheckHeaderAndUpdateState example_env example_heap example_cs
       (HeaderP (Some example_future_header)) =
     Return (example_heap, None, None,
       Some (Wrap ClientErrInvalidHeader
         (Text ''header sequence does not match the client state sequence (6 != 5)'')))"
  using C2_sequence_mismatch_rejected [of example_stale_header example_cs example_env example_heap]
    C2_sequence_mismatch_rejected [of example_future_header example_cs example_env example_heap]
  by (simp add: example_defs sequence_mismatch_text_def decimal.simps)

text \<open>
  Claim C10. The checks run in a fixed order and the first failure decides. A header
  with the wrong sequence gets the sequence error whatever its timestamp and signature
  are, and a header with the right sequence and an earlier timestamp gets the timestamp
  error whatever its signature is. In both cases the run is the same in the environment
  where every called function panics: sign bytes are not built, the signature is not
  decoded, the key is not read and nothing is verified.
\<close>

theorem C10_checks_in_order:
  "(Header.Sequence h \<noteq> ClientState.Sequence cs \<longrightarrow>
      VerifyHeader env heap cs (HeaderP (Some h)) =
        Return (Some (Wrap ClientErrInvalidHeader
          (Text (sequence_mismatch_text (Header.Sequence h) (ClientState.Sequence cs))))) \<and>
      VerifyHeader panic_env heap cs (HeaderP (Some h)) =
        VerifyHeader env heap cs (HeaderP (Some h))) \<and>
   (Header.Sequence h = ClientState.Sequence cs \<and>
    deref heap (ClientState.ConsensusState cs) = Some c \<and>
    Header.Timestamp h < ConsensusState.Timestamp c \<longrightarrow>
      VerifyHeader env heap cs (HeaderP (Some h)) =
        Return (Some (Wrap ClientErrInvalidHeader
          (Text (timestamp_regression_text (Header.Timestamp h) (ConsensusState.Timestamp c))))) \<and>
      VerifyHeader panic_env heap cs (HeaderP (Some h)) =
        VerifyHeader env heap cs (HeaderP (Some h)))"
  by (simp add: VerifyHeader_sequence_mismatch VerifyHeader_timestamp_regression)

theorem C10_checks_in_order_witness:
  "Header.Sequence example_all_wrong_header \<noteq> ClientState.Sequence example_cs \<and>
   Header.Timestamp example_all_wrong_header < ConsensusState.Timestamp (example_heap ! 0) \<and>
   UnmarshalSignatureData example_env (Header.Signature example_all_wrong_header) =
     Return (Inl example_decode_error) \<and>
   VerifyHeader example_env example_heap example_cs (HeaderP (Some example_all_wrong_header)) =
     Return (Some (Wrap ClientErrInvalidHeader
       (Text ''header sequence does not match the client state sequence (4 != 5)''))) \<and>
   VerifyHeader panic_env example_heap example_cs (HeaderP (Some example_all_wrong_header)) =
     VerifyHeader example_env example_heap example_cs (HeaderP (Some example_all_wrong_header)) \<and>
   Header.Sequence example_early_header = ClientState.Sequence example_cs \<and>
   deref example_heap (ClientState.ConsensusState example_cs) = Some (example_heap ! 0) \<and>
   Header.Timestamp example_early_header < ConsensusState.Timestamp (example_heap ! 0) \<and>
   VerifyHeader example_env example_heap example_cs (HeaderP (Some example_early_header)) =
     Return (Some (Wrap ClientErrInvalidHeader
       (Text ''header timestamp is less than to the consensus state timestamp (99 < 100)''))) \<and>
   VerifyHeader panic_env example_heap example_cs (HeaderP (Some example_early_header)) =
     VerifyHeader example_env example_heap example_cs (HeaderP (Some example_early_header))"
  using C10_checks_in_order [of example_all_wrong_header example_cs example_env example_heap
          "example_heap ! 0"]
    C10_checks_in_order [of example_early_header example_cs example_env example_heap
          "example_heap ! 0"]
  by (simp add: example_defs deref_def sequence_mismatch_text_def timestamp_regression_text_def
        decimal.simps)

subsection \<open>Timestamp check\<close>

text \<open>
  Claim C3. With the sequence matching: a header whose timestamp is below the timestamp
  of the current consensus state is rejected with \<^verbatim>\<open>clienttypes.ErrInvalidHeader\<close> wrapped
  with the description of the regression, on an unchanged heap; a header whose
  timestamp equals it passes the timestamp check, and is accepted when its signature
  verifies.
\<close>

theorem C3_timestamp_check:
  assumes "Header.Sequence h = ClientState.Sequence cs"
    and "deref heap (ClientState.ConsensusState cs) = Some c"
  shows "(Header.Timestamp h < ConsensusState.Timestamp c \<longrightarrow>
            CheckHeaderAndUpdateState env heap cs (HeaderP (Some h)) =
              Return (heap, None, None,
                Some (Wrap ClientErrInvalidHeader
                  (Text (timestamp_regression_text (Header.Timestamp h)
                           (ConsensusState.Timestamp c)))))) \<and>
         (Header.Timestamp h = ConsensusState.Timestamp c \<and>
          HeaderSignBytes env h = Return (Inr data) \<and>
          UnmarshalSignatureData env (Header.Signature h) = Return (Inr sigData) \<and>
          GetPubKey env c = Return (Inr publicKey) \<and>
          VerifySignature env publicKey data sigData = Return None \<longrightarrow>
            VerifyHeader env heap cs (HeaderP (Some h)) = Return None \<and>
            (\<exists>heap' cs' p.
               CheckHeaderAndUpdateState env heap cs (HeaderP (Some h)) =
                 Return (heap', Some cs', Some p, None)))"
proof (intro conjI impI)
  assume "Header.Timestamp h < ConsensusState.Timestamp c"
  with assms show "CheckHeaderAndUpdateState env heap cs (HeaderP (Some h)) =
      Return (heap, None, None,
        Some (Wrap ClientErrInvalidHeader
          (Text (timestamp_regression_text (Header.Timestamp h) (ConsensusState.Timestamp c)))))"
    by (simp add: CheckHeaderAndUpdateState_rejects VerifyHeader_timestamp_regression)
next
  assume ok: "Header.Timestamp h = ConsensusState.Timestamp c \<and>
          HeaderSignBytes env h = Return (Inr data) \<and>
          UnmarshalSignatureData env (Header.Signature h) = Return (Inr sigData) \<and>
          GetPubKey env c = Return (Inr publicKey) \<and>
          VerifySignature env publicKey data sigData = Return None"
  with assms show v: "VerifyHeader env heap cs (HeaderP (Some h)) = Return None"
    by (simp add: VerifyHeader_signature_step)
  then show "\<exists>heap' cs' p.
               CheckHeaderAndUpdateState env heap cs (HeaderP (Some h)) =
                 Return (heap', Some cs', Some p, None)"
    by (simp add: CheckHeaderAndUpdateState_accepts)
qed

theorem C3_timestamp_check_witness:
  "Header.Sequence example_early_header = ClientState.Sequence example_cs \<and>
   deref example_heap (ClientState.ConsensusState example_cs) = Some (example_heap ! 0) \<and>
   Header.Timestamp example_early_header < ConsensusState.Timestamp (example_heap ! 0) \<and>
   CheckHeaderAndUpdateState example_env example_heap example_cs
       (HeaderP (Some example_early_header)) =
     Return (example_heap, None, None,
       Some (Wrap ClientErrInvalidHeader
         (Text ''header timestamp is less than to the consensus state timestamp (99 < 100)''))) \<and>
   Header.Sequence example_header = ClientState.Sequence example_cs \<and>
   Header.Timestamp example_header = ConsensusState.Timestamp (example_heap ! 0) \<and>
   HeaderSignBytes example_env example_header = Return (Inr [2, 5, 100]) \<and>
   UnmarshalSignatureData example_env (Header.Signature example_header) =
     Return (Inr [1, 2, 5, 100]) \<and>
   GetPubKey example_env (example_heap ! 0) = Return (Inr [1]) \<and>
   VerifySignature example_env [1] [2, 5, 100] [1, 2, 5, 100] = Return None \<and>
   VerifyHeader example_env example_heap example_cs (HeaderP (Some example_header)) =
     Return None \<and>
   (\<exists>heap' cs' p.
      CheckHeaderAndUpdateState example_env example_heap example_cs
          (HeaderP (Some example_header)) =
        Return (heap', Some cs', Some p, None))"
  using C3_timestamp_check [of example_early_header example_cs example_heap "example_heap ! 0"
          example_env "[]" "[]" "[]"]
    C3_timestamp_check [of example_header example_cs example_heap "example_heap ! 0"
          example_env "[2, 5, 100]" "[1, 2, 5, 100]" "[1]"]
  by (simp add: example_defs deref_def timestamp_regression_text_def decimal.simps)

subsection \<open>Accepted update\<close>

text \<open>
  The claim as first stated in C1 asks for the sequence of the input plus one exactly.
  At the largest \<^verbatim>\<open>uint64\<close> a header that passes every check is accepted and the returned
  sequence is zero.
\<close>

theorem C1_sequence_wraps_counterexample:
  "ClientState.Sequence example_max_cs = 2 ^ 64 - 1 \<and>
   VerifyHeader example_env example_heap example_max_cs (HeaderP (Some example_max_header)) =
     Return None \<and>
   CheckHeaderAndUpdateState example_env example_heap example_max_cs
       (HeaderP (Some example_max_header)) =
     Return (example_heap @ [\<lparr> PublicKey = [2], Diversifier = ''solo2'', Timestamp = 100 \<rparr>],
             Some \<lparr> ClientState.Sequence = 0, ClientState.ConsensusState = Some 1 \<rparr>,
             Some 1, None) \<and>
   unat (0 :: uint64) \<noteq> unat (ClientState.Sequence example_max_cs) + 1"
  by (simp add: CheckHeaderAndUpdateState_def VerifyHeader.simps update_def example_defs
        deref_def)

text \<open>
  Claim C1, amended. For a client state whose sequence is below the largest \<^verbatim>\<open>uint64\<close>, a
  header that passes the sequence check, the timestamp check and the signature check
  is accepted: the returned client state has, as a number, the sequence of the input
  plus one and points to the returned consensus state, which holds the header's new
  public key, new diversifier and timestamp.
\<close>

theorem C1_accepted_update:
  assumes "unat (ClientState.Sequence cs) < 2 ^ 64 - 1"
    and "Header.Sequence h = ClientState.Sequence cs"
    and "deref heap (ClientState.ConsensusState cs) = Some c"
    and "\<not> Header.Timestamp h < ConsensusState.Timestamp c"
    and "HeaderSignBytes env h = Return (Inr data)"
    and "UnmarshalSignatureData env (Header.Signature h) = Return (Inr sigData)"
    and "GetPubKey env c = Return (Inr publicKey)"
    and "VerifySignature env publicKey data sigData = Return None"
  shows "\<exists>heap' cs' p c'.
           CheckHeaderAndUpdateState env heap cs (HeaderP (Some h)) =
             Return (heap', Some cs', Some p, None) \<and>
           unat (ClientState.Sequence cs') = unat (ClientState.Sequence cs) + 1 \<and>
           ClientState.ConsensusState cs' = Some p \<and>
           deref heap' (Some p) = Some c' \<and>
           PublicKey c' = NewPublicKey h \<and>
           ConsensusState.Diversifier c' = NewDiversifier h \<and>
           ConsensusState.Timestamp c' = Header.Timestamp h"
proof -
  from assms have "VerifyHeader env heap cs (HeaderP (Some h)) = Return None"
    by (simp add: VerifyHeader_signature_step)
  then have run: "CheckHeaderAndUpdateState env heap cs (HeaderP (Some h)) =
     Return (heap @ [\<lparr> PublicKey = NewPublicKey h, Diversifier = NewDiversifier h,
                        Timestamp = Header.Timestamp h \<rparr>],
             Some (cs \<lparr> ClientState.Sequence := ClientState.Sequence cs + 1,
                        ClientState.ConsensusState := Some (length heap) \<rparr>),
             Some (length heap), None)"
    by (rule CheckHeaderAndUpdateState_accepts)
  from assms(1) have "unat (ClientState.Sequence cs) + 1 < 2 ^ LENGTH(64)" by simp
  then have "unat (ClientState.Sequence cs + 1) = unat (ClientState.Sequence cs) + 1"
    by (simp add: unat_word_ariths)
  with run show ?thesis by (simp add: deref_def)
qed

theorem C1_accepted_update_witness:
  "unat (ClientState.Sequence example_cs) < 2 ^ 64 - 1 \<and>
   Header.Sequence example_header = ClientState.Sequence example_cs \<and>
   deref example_heap (ClientState.ConsensusState example_cs) = Some (example_heap ! 0) \<and>
   \<not> Header.Timestamp example_header < ConsensusState.Timestamp (example_heap ! 0) \<and>
   HeaderSignBytes example_env example_header = Return (Inr [2, 5, 100]) \<and>
   UnmarshalSignatureData example_env (Header.Signature example_header) =
     Return (Inr [1, 2, 5, 100]) \<and>
   GetPubKey example_env (example_heap ! 0) = Return (Inr [1]) \<and>
   VerifySignature example_env [1] [2, 5, 100] [1, 2, 5, 100] = Return None \<and>
   (\<exists>heap' cs' p c'.
      CheckHeaderAndUpdateState example_env example_heap example_cs
          (HeaderP (Some example_header)) =
        Return (heap', Some cs', Some p, None) \<and>
      unat (ClientState.Sequence cs') = 6 \<and>
      ClientState.ConsensusState cs' = Some p \<and>
      deref heap' (Some p) = Some c' \<and>
      PublicKey c' = [2] \<and>
      ConsensusState.Diversifier c' = ''solo2'' \<and>
      ConsensusState.Timestamp c' = 100)"
  using C1_accepted_update [of example_cs example_header example_heap "example_heap ! 0"
          example_env "[2, 5, 100]" "[1, 2, 5, 100]" "[1]"]
  by (simp add: example_defs deref_def)

text \<open>
  The increment is Go's \<^verbatim>\<open>clientState.Sequence++\<close> on a \<^verbatim>\<open>uint64\<close>: below the largest value
  it is the successor, at the largest value it wraps to zero.
\<close>

lemma update_sequence_no_overflow:
  assumes "ClientState.Sequence cs \<noteq> - 1"
  shows "unat (ClientState.Sequence (fst (snd (update heap cs h)))) =
           unat (ClientState.Sequence cs) + 1"
proof -
  from assms have "1 + ClientState.Sequence cs \<noteq> 0"
    by (simp add: eq_neg_iff_add_eq_0 add.commute)
  then have "unat (1 + ClientState.Sequence cs) = Suc (unat (ClientState.Sequence cs))"
    by (rule unatSuc)
  then show ?thesis by (simp add: update_def Let_def add.commute)
qed

lemma update_sequence_wraps:
  "ClientState.Sequence cs = - 1 \<Longrightarrow> ClientState.Sequence (fst (snd (update heap cs h))) = 0"
  by (simp add: update_def Let_def)

subsection \<open>No partial update\<close>

text \<open>
  What holds for every header value and every call that returns: an error comes with
  the heap as it was given and with no client state and no consensus state; a new
  structure is only returned together with the other one, without an error, and then
  the heap has grown by exactly the one new consensus state; the consensus states that
  existed before the call are unchanged. (The client state itself is passed by value:
  the function writes to its own copy.)
\<close>

lemma CheckHeaderAndUpdateState_no_partial_update:
  assumes "CheckHeaderAndUpdateState env heap cs hdr = Return (heap', rcs, rcons, rerr)"
  shows "(rerr \<noteq> None \<longrightarrow> heap' = heap \<and> rcs = None \<and> rcons = None) \<and>
         (rcs \<noteq> None \<or> rcons \<noteq> None \<longrightarrow>
            rerr = None \<and> rcs \<noteq> None \<and> rcons \<noteq> None \<and> (\<exists>c. heap' = heap @ [c])) \<and>
         take (length heap) heap' = heap"
  using CheckHeaderAndUpdateState_cases [OF assms] by auto

text \<open>
  Claim C5 at a misbehaviour proof whose two signatures verify: every check of
  \<^verbatim>\<open>VerifyHeader\<close> passes, and the call returns neither the two new structures nor an
  error. The claim's two cases, for every input header, leave no room for this third
  outcome.
\<close>

theorem C5_verified_proof_breaks_dichotomy:
  "VerifyHeader example_env example_heap example_cs
       (DuplicateSignaturesP (Some example_proof)) = Return None \<and>
   CheckHeaderAndUpdateState example_env example_heap example_cs
       (DuplicateSignaturesP (Some example_proof)) =
     Return (example_heap, None, None, None)"
  by (simp add: CheckHeaderAndUpdateState_def VerifyHeader.simps example_defs
        example_proof_defs deref_def)

subsection \<open>Repeated rejection\<close>

text \<open>
  With deterministic called functions, a run in any world returns what the first model
  returns.
\<close>

lemma VerifyHeaderW_deterministic:
  assumes "deterministic env"
  shows "map_outcome fst (VerifyHeaderW env w heap cs hdr) =
           VerifyHeader (at_world env w0) heap cs hdr"
proof -
  have sb: "HeaderSignBytes (at_world env w0) h = map_outcome fst (HeaderSignBytesW env w h)"
    for w h
    using assms unfolding deterministic_def at_world_def by simp
  have un: "UnmarshalSignatureData (at_world env w0) b =
              map_outcome fst (UnmarshalSignatureDataW env w b)" for w b
    using assms unfolding deterministic_def at_world_def by simp
  have pk: "GetPubKey (at_world env w0) c = map_outcome fst (GetPubKeyW env w c)" for w c
    using assms unfolding deterministic_def at_world_def by simp
  have vs: "VerifySignature (at_world env w0) k d s =
              map_outcome fst (VerifySignatureW env w k d s)" for w k d s
    using assms unfolding deterministic_def at_world_def by simp
  have vd: "verifySignatureAndData (at_world env w0) hp c d s =
              map_outcome fst (verifySignatureAndDataW env w hp c d s)" for w hp c d s
    using assms unfolding deterministic_def at_world_def by simp
  show ?thesis
  proof (cases hdr)
    case (HeaderP ho)
    show ?thesis
    proof (cases ho)
      case None
      with HeaderP show ?thesis by (simp add: VerifyHeaderW.simps VerifyHeader.simps)
    next
      case (Some h)
      have l4: "map_outcome fst
                  (case VerifySignatureW env w3 k d s of
                     Panic \<Rightarrow> Panic
                   | Return (Some err, w4) \<Rightarrow>
                       Return (Some (Wrap ErrInvalidHeader (ErrorText err)), w4)
                   | Return (None, w4) \<Rightarrow> Return (None, w4)) =
                (case VerifySignature (at_world env w0) k d s of
                   Panic \<Rightarrow> Panic
                 | Return (Some err) \<Rightarrow> Return (Some (Wrap ErrInvalidHeader (ErrorText err)))
                 | Return None \<Rightarrow> Return None)" for w3 k d s
        unfolding vs [of k d s w3]
        by (cases "VerifySignatureW env w3 k d s") (auto split: option.splits)
      have l3: "map_outcome fst
                  (case GetPubKeyW env w2 c of
                     Panic \<Rightarrow> Panic
                   | Return (Inl err, w3) \<Rightarrow> Return (Some err, w3)
                   | Return (Inr publicKey, w3) \<Rightarrow>
                       (case VerifySignatureW env w3 publicKey d s of
                          Panic \<Rightarrow> Panic
                        | Return (Some err, w4) \<Rightarrow>
                            Return (Some (Wrap ErrInvalidHeader (ErrorText err)), w4)
                        | Return (None, w4) \<Rightarrow> Return (None, w4))) =
                (case GetPubKey (at_world env w0) c of
                   Panic \<Rightarrow> Panic
                 | Return (Inl err) \<Rightarrow> Return (Some err)
                 | Return (Inr publicKey) \<Rightarrow>
                     (case VerifySignature (at_world env w0) publicKey d s of
                        Panic \<Rightarrow> Panic
                      | Return (Some err) \<Rightarrow>
                          Return (Some (Wrap ErrInvalidHeader (ErrorText err)))
                      | Return None \<Rightarrow> Return None))" for w2 c d s
        unfolding pk [of c w2]
        by (cases "GetPubKeyW env w2 c") (auto simp: l4 split: sum.splits)
      have l2: "map_outcome fst
                  (case UnmarshalSignatureDataW env w1 b of
                     Panic \<Rightarrow> Panic
                   | Return (Inl err, w2) \<Rightarrow> Return (Some err, w2)
                   | Return (Inr sigData, w2) \<Rightarrow>
                       (case GetPubKeyW env w2 c of
                          Panic \<Rightarrow> Panic
                        | Return (Inl err, w3) \<Rightarrow> Return (Some err, w3)
                        | Return (Inr publicKey, w3) \<Rightarrow>
                            (case VerifySignatureW env w3 publicKey d sigData of
                               Panic \<Rightarrow> Panic
                             | Return (Some err, w4) \<Rightarrow>
                                 Return (Some (Wrap ErrInvalidHeader (ErrorText err)), w4)
                             | Return (None, w4) \<Rightarrow> Return (None, w4)))) =
                (case UnmarshalSignatureData (at_world env w0) b of
                   Panic \<Rightarrow> Panic
                 | Return (Inl err) \<Rightarrow> Return (Some err)
                 | Return (Inr sigData) \<Rightarrow>
                     (case GetPubKey (at_world env w0) c of
                        Panic \<Rightarrow> Panic
                      | Return (Inl err) \<Rightarrow> Return (Some err)
                      | Return (Inr publicKey) \<Rightarrow>
                          (case VerifySignature (at_world env w0) publicKey d sigData of
                             Panic \<Rightarrow> Panic
                           | Return (Some err) \<Rightarrow>
                               Return (Some (Wrap ErrInvalidHeader (ErrorText err)))
                           | Return None \<Rightarrow> Return None)))" for w1 b c d
        unfolding un [of b w1]
        by (cases "UnmarshalSignatureDataW env w1 b") (auto simp: l3 split: sum.splits)
      have l1: "map_outcome fst
                  (case HeaderSignBytesW env w h of
                     Panic \<Rightarrow> Panic
                   | Return (Inl err, w1) \<Rightarrow> Return (Some err, w1)
                   | Return (Inr data, w1) \<Rightarrow>
                       (case UnmarshalSignatureDataW env w1 b of
                          Panic \<Rightarrow> Panic
                        | Return (Inl err, w2) \<Rightarrow> Return (Some err, w2)
                        | Return (Inr sigData, w2) \<Rightarrow>
                            (case GetPubKeyW env w2 c of
                               Panic \<Rightarrow> Panic
                             | Return (Inl err, w3) \<Rightarrow> Return (Some err, w3)
                             | Return (Inr publicKey, w3) \<Rightarrow>
                                 (case VerifySignatureW env w3 publicKey data sigData of
                                    Panic \<Rightarrow> Panic
                                  | Return (Some err, w4) \<Rightarrow>
                                      Return (Some (Wrap ErrInvalidHeader (ErrorText err)), w4)
                                  | Return (None, w4) \<Rightarrow> Return (None, w4))))) =
                (case HeaderSignBytes (at_world env w0) h of
                   Panic \<Rightarrow> Panic
                 | Return (Inl err) \<Rightarrow> Return (Some err)
                 | Return (Inr data) \<Rightarrow>
                     (case UnmarshalSignatureData (at_world env w0) b of
                        Panic \<Rightarrow> Panic
                      | Return (Inl err) \<Rightarrow> Return (Some err)
                      | Return (Inr sigData) \<Rightarrow>
                          (case GetPubKey (at_world env w0) c of
                             Panic \<Rightarrow> Panic
                           | Return (Inl err) \<Rightarrow> Return (Some err)
                           | Return (Inr publicKey) \<Rightarrow>
                               (case VerifySignature (at_world env w0) publicKey data sigData of
                                  Panic \<Rightarrow> Panic
                                | Return (Some err) \<Rightarrow>
                                    Return (Some (Wrap ErrInvalidHeader (ErrorText err)))
                                | Return None \<Rightarrow> Return None))))" for b c
        unfolding sb [of h w]
        by (cases "HeaderSignBytesW env w h") (auto simp: l2 split: sum.splits)
      show ?thesis
        unfolding HeaderP Some VerifyHeaderW.simps VerifyHeader.simps
        by (simp add: l1 split: option.splits)
    qed
  next
    case (DuplicateSignaturesP dopt)
    show ?thesis
    proof (cases dopt)
      case None
      with DuplicateSignaturesP show ?thesis
        by (simp add: VerifyHeaderW.simps VerifyHeader.simps)
    next
      case (Some d)
      have m2: "map_outcome fst
                  (case verifySignatureAndDataW env w1 heap cs d s of
                     Panic \<Rightarrow> Panic
                   | Return (Some err, w2) \<Rightarrow>
                       Return (Some (Wrap err (Text ''failed to verify signature two'')), w2)
                   | Return (None, w2) \<Rightarrow> Return (None, w2)) =
                (case verifySignatureAndData (at_world env w0) heap cs d s of
                   Panic \<Rightarrow> Panic
                 | Return (Some err) \<Rightarrow>
                     Return (Some (Wrap err (Text ''failed to verify signature two'')))
                 | Return None \<Rightarrow> Return None)" for w1 s
        unfolding vd [of heap cs d s w1]
        by (cases "verifySignatureAndDataW env w1 heap cs d s") (auto split: option.splits)
      show ?thesis
        unfolding DuplicateSignaturesP Some VerifyHeaderW.simps VerifyHeader.simps
          vd [of heap cs d "SignatureOne d" w]
        by (cases "verifySignatureAndDataW env w heap cs d (SignatureOne d)")
          (auto simp: m2 split: option.splits)
    qed
  next
    case (OtherHeader s)
    then show ?thesis by (simp add: VerifyHeaderW.simps VerifyHeader.simps)
  qed
qed

lemma CheckHeaderAndUpdateStateW_deterministic:
  assumes "deterministic env"
  shows "map_outcome fst (CheckHeaderAndUpdateStateW env w heap cs hdr) =
           CheckHeaderAndUpdateState (at_world env w0) heap cs hdr"
  unfolding CheckHeaderAndUpdateStateW_def CheckHeaderAndUpdateState_def
    VerifyHeaderW_deterministic [OF assms, of w heap cs hdr w0, symmetric]
  by (cases "VerifyHeaderW env w heap cs hdr")
    (auto split: option.splits header_iface.splits prod.splits)

lemma counting_deterministic: "deterministic (counting env)"
  by (simp add: deterministic_def counting_def outcome.map_comp comp_def)

text \<open>
  Claim C9. With deterministic called functions: if a call is rejected with an error,
  it has left the heap as it was and returned no state, and the same call made again,
  in the heap and the world the first one left, is rejected with the same error and
  again leaves the heap as it was.
\<close>

theorem C9_rejection_repeats:
  assumes "deterministic env"
    and "CheckHeaderAndUpdateStateW env w heap cs hdr =
           Return ((heap1, rcs, rcons, Some e), w1)"
  shows "heap1 = heap \<and> rcs = None \<and> rcons = None \<and>
         (\<exists>w2. CheckHeaderAndUpdateStateW env w1 heap1 cs hdr =
                 Return ((heap, None, None, Some e), w2))"
proof -
  from assms(2)
  have "map_outcome fst (CheckHeaderAndUpdateStateW env w heap cs hdr) =
          Return (heap1, rcs, rcons, Some e)"
    by simp
  with CheckHeaderAndUpdateStateW_deterministic [OF assms(1), of w heap cs hdr w]
  have first: "CheckHeaderAndUpdateState (at_world env w) heap cs hdr =
                      Return (heap1, rcs, rcons, Some e)"
    by simp
  from CheckHeaderAndUpdateState_cases [OF first]
  have same: "heap1 = heap \<and> rcs = None \<and> rcons = None" by auto
  with first CheckHeaderAndUpdateStateW_deterministic [OF assms(1), of w1 heap1 cs hdr w]
  have "map_outcome fst (CheckHeaderAndUpdateStateW env w1 heap1 cs hdr) =
          Return (heap, None, None, Some e)"
    by simp
  then have "\<exists>w2. CheckHeaderAndUpdateStateW env w1 heap1 cs hdr =
                   Return ((heap, None, None, Some e), w2)"
    by (cases "CheckHeaderAndUpdateStateW env w1 heap1 cs hdr") auto
  with same show ?thesis by simp
qed

theorem C9_rejection_repeats_witness:
  "deterministic (counting example_env) \<and>
   CheckHeaderAndUpdateStateW (counting example_env) 0 example_heap example_cs
       (HeaderP (Some example_other_key_header)) =
     Return ((example_heap, None, None,
              Some (Wrap ErrInvalidHeader (ErrorText example_verify_error))), 4) \<and>
   CheckHeaderAndUpdateStateW (counting example_env) 4 example_heap example_cs
       (HeaderP (Some example_other_key_header)) =
     Return ((example_heap, None, None,
              Some (Wrap ErrInvalidHeader (ErrorText example_verify_error))), 8)"
  using C9_rejection_repeats [of "counting example_env" 0 example_heap example_cs
          "HeaderP (Some example_other_key_header)" example_heap None None
          "Wrap ErrInvalidHeader (ErrorText example_verify_error)" 4]
    counting_deterministic [of example_env]
  by (simp add: CheckHeaderAndUpdateStateW_def VerifyHeaderW.simps counting_def example_defs
        deref_def)

text \<open>
  The hypothesis is needed: with a verification that depends on the world, the first
  call rejects the header and the second accepts it.
\<close>

lemma flaky_not_deterministic: "\<not> deterministic flaky"
proof
  assume "deterministic flaky"
  then have "map_outcome fst (VerifySignatureW flaky 0 [] [] []) =
             map_outcome fst (VerifySignatureW flaky 4 [] [] [])"
    unfolding deterministic_def by blast
  then show False by (simp add: flaky_def counting_def)
qed

lemma flaky_rejection_does_not_repeat:
  "CheckHeaderAndUpdateStateW flaky 0 example_heap example_cs
       (HeaderP (Some example_other_key_header)) =
     Return ((example_heap, None, None,
              Some (Wrap ErrInvalidHeader (ErrorText example_verify_error))), 4) \<and>
   CheckHeaderAndUpdateStateW flaky 4 example_heap example_cs
       (HeaderP (Some example_other_key_header)) =
     Return ((example_heap @ [\<lparr> PublicKey = [2], Diversifier = ''solo2'', Timestamp = 100 \<rparr>],
              Some \<lparr> ClientState.Sequence = 6, ClientState.ConsensusState = Some 1 \<rparr>,
              Some 1, None), 8)"
  by (simp add: CheckHeaderAndUpdateStateW_def VerifyHeaderW.simps flaky_def counting_def
        update_def example_defs deref_def)

subsection \<open>Signature check\<close>

text \<open>
  The claim as first stated in C4 asks for one invalid-signature error, wrapping the
  primitive's error, for a malformed signature encoding as for a failed verification,
  whatever the sequence and timestamp are. A header with the right sequence and
  timestamp whose signature does not decode is rejected with the decoder's own error,
  not wrapped; and a header signed by another key at a stale sequence is rejected with
  the sequence error.
\<close>

theorem C4_signature_failure_counterexample:
  "Header.Sequence example_malformed_header = ClientState.Sequence example_cs \<and>
   deref example_heap (ClientState.ConsensusState example_cs) = Some (example_heap ! 0) \<and>
   \<not> Header.Timestamp example_malformed_header < ConsensusState.Timestamp (example_heap ! 0) \<and>
   UnmarshalSignatureData example_env (Header.Signature example_malformed_header) =
     Return (Inl example_decode_error) \<and>
   CheckHeaderAndUpdateState example_env example_heap example_cs
       (HeaderP (Some example_malformed_header)) =
     Return (example_heap, None, None, Some example_decode_error) \<and>
   example_decode_error \<noteq> Wrap ErrInvalidSignature (ErrorText example_decode_error) \<and>
   example_decode_error \<noteq> Wrap ErrInvalidHeader (ErrorText example_decode_error) \<and>
   VerifySignature example_env [1] [2, 4, 100]
       (Header.Signature example_stale_other_key_header) =
     Return (Some example_verify_error) \<and>
   CheckHeaderAndUpdateState example_env example_heap example_cs
       (HeaderP (Some example_stale_other_key_header)) =
     Return (example_heap, None, None,
       Some (Wrap ClientErrInvalidHeader
         (Text ''header sequence does not match the client state sequence (4 != 5)'')))"
  by (simp add: CheckHeaderAndUpdateState_def VerifyHeader.simps example_defs deref_def
        example_decode_error_def example_verify_error_def sequence_mismatch_text_def
        decimal.simps)

text \<open>
  Claim C4, amended. The signature is verified against the key of the current consensus
  state, never against the header's new key. With sequence and timestamp passing: if
  the verification fails with \<open>e\<close> the update is rejected with this package's
  \<^verbatim>\<open>ErrInvalidHeader\<close> wrapped with the text of \<open>e\<close>; if the signature does not decode,
  the update is rejected with the decoder's error as it is. Whatever the sequence and
  timestamp are, a header whose signature fails verification under the current key is
  rejected, with the error of the first check that fails. No state is returned and the
  heap is unchanged.
\<close>

theorem C4_signature_failure:
  assumes "deref heap (ClientState.ConsensusState cs) = Some c"
    and "HeaderSignBytes env h = Return (Inr data)"
    and "GetPubKey env c = Return (Inr publicKey)"
  shows "(Header.Sequence h = ClientState.Sequence cs \<and>
          \<not> Header.Timestamp h < ConsensusState.Timestamp c \<and>
          UnmarshalSignatureData env (Header.Signature h) = Return (Inr sigData) \<and>
          VerifySignature env publicKey data sigData = Return (Some e) \<longrightarrow>
            CheckHeaderAndUpdateState env heap cs (HeaderP (Some h)) =
              Return (heap, None, None, Some (Wrap ErrInvalidHeader (ErrorText e)))) \<and>
         (Header.Sequence h = ClientState.Sequence cs \<and>
          \<not> Header.Timestamp h < ConsensusState.Timestamp c \<and>
          UnmarshalSignatureData env (Header.Signature h) = Return (Inl e) \<longrightarrow>
            CheckHeaderAndUpdateState env heap cs (HeaderP (Some h)) =
              Return (heap, None, None, Some e)) \<and>
         (UnmarshalSignatureData env (Header.Signature h) = Return (Inr sigData) \<and>
          VerifySignature env publicKey data sigData = Return (Some e) \<longrightarrow>
            CheckHeaderAndUpdateState env heap cs (HeaderP (Some h)) =
              Return (heap, None, None,
                Some (if Header.Sequence h \<noteq> ClientState.Sequence cs
                      then Wrap ClientErrInvalidHeader
                             (Text (sequence_mismatch_text (Header.Sequence h)
                                      (ClientState.Sequence cs)))
                      else if Header.Timestamp h < ConsensusState.Timestamp c
                      then Wrap ClientErrInvalidHeader
                             (Text (timestamp_regression_text (Header.Timestamp h)
                                      (ConsensusState.Timestamp c)))
                      else Wrap ErrInvalidHeader (ErrorText e))))"
proof -
  have wrapped: "VerifyHeader env heap cs (HeaderP (Some h)) =
                   Return (Some (Wrap ErrInvalidHeader (ErrorText e)))"
    if "Header.Sequence h = ClientState.Sequence cs"
      and "\<not> Header.Timestamp h < ConsensusState.Timestamp c"
      and "UnmarshalSignatureData env (Header.Signature h) = Return (Inr sigData)"
      and "VerifySignature env publicKey data sigData = Return (Some e)"
    using that assms by (simp add: VerifyHeader_signature_step)
  have raw: "VerifyHeader env heap cs (HeaderP (Some h)) = Return (Some e)"
    if "Header.Sequence h = ClientState.Sequence cs"
      and "\<not> Header.Timestamp h < ConsensusState.Timestamp c"
      and "UnmarshalSignatureData env (Header.Signature h) = Return (Inl e)"
    using that assms by (simp add: VerifyHeader.simps)
  have first: "VerifyHeader env heap cs (HeaderP (Some h)) =
      Return (Some (if Header.Sequence h \<noteq> ClientState.Sequence cs
                    then Wrap ClientErrInvalidHeader
                           (Text (sequence_mismatch_text (Header.Sequence h)
                                    (ClientState.Sequence cs)))
                    else if Header.Timestamp h < ConsensusState.Timestamp c
                    then Wrap ClientErrInvalidHeader
                           (Text (timestamp_regression_text (Header.Timestamp h)
                                    (ConsensusState.Timestamp c)))
                    else Wrap ErrInvalidHeader (ErrorText e)))"
    if "UnmarshalSignatureData env (Header.Signature h) = Return (Inr sigData)"
      and "VerifySignature env publicKey data sigData = Return (Some e)"
  proof (cases "Header.Sequence h = ClientState.Sequence cs")
    case False
    then show ?thesis by (simp add: VerifyHeader_sequence_mismatch)
  next
    case True
    show ?thesis
    proof (cases "Header.Timestamp h < ConsensusState.Timestamp c")
      case True
      with \<open>Header.Sequence h = ClientState.Sequence cs\<close> assms show ?thesis
        by (simp add: VerifyHeader_timestamp_regression)
    next
      case False
      with \<open>Header.Sequence h = ClientState.Sequence cs\<close> that show ?thesis
        by (simp add: wrapped)
    qed
  qed
  show ?thesis
  proof (intro conjI impI)
    assume "Header.Sequence h = ClientState.Sequence cs \<and>
          \<not> Header.Timestamp h < ConsensusState.Timestamp c \<and>
          UnmarshalSignatureData env (Header.Signature h) = Return (Inr sigData) \<and>
          VerifySignature env publicKey data sigData = Return (Some e)"
    then show "CheckHeaderAndUpdateState env heap cs (HeaderP (Some h)) =
              Return (heap, None, None, Some (Wrap ErrInvalidHeader (ErrorText e)))"
      by (simp add: wrapped CheckHeaderAndUpdateState_rejects)
  next
    assume "Header.Sequence h = ClientState.Sequence cs \<and>
          \<not> Header.Timestamp h < ConsensusState.Timestamp c \<and>
          UnmarshalSignatureData env (Header.Signature h) = Return (Inl e)"
    then show "CheckHeaderAndUpdateState env heap cs (HeaderP (Some h)) =
              Return (heap, None, None, Some e)"
      by (simp add: raw CheckHeaderAndUpdateState_rejects)
  next
    assume "UnmarshalSignatureData env (Header.Signature h) = Return (Inr sigData) \<and>
          VerifySignature env publicKey data sigData = Return (Some e)"
    then have "VerifyHeader env heap cs (HeaderP (Some h)) =
      Return (Some (if Header.Sequence h \<noteq> ClientState.Sequence cs
                    then Wrap ClientErrInvalidHeader
                           (Text (sequence_mismatch_text (Header.Sequence h)
                                    (ClientState.Sequence cs)))
                    else if Header.Timestamp h < ConsensusState.Timestamp c
                    then Wrap ClientErrInvalidHeader
                           (Text (timestamp_regression_text (Header.Timestamp h)
                                    (ConsensusState.Timestamp c)))
                    else Wrap ErrInvalidHeader (ErrorText e)))"
      by (simp add: first)
    then show "CheckHeaderAndUpdateState env heap cs (HeaderP (Some h)) =
              Return (heap, None, None,
                Some (if Header.Sequence h \<noteq> ClientState.Sequence cs
                      then Wrap ClientErrInvalidHeader
                             (Text (sequence_mismatch_text (Header.Sequence h)
                                      (ClientState.Sequence cs)))
                      else if Header.Timestamp h < ConsensusState.Timestamp c
                      then Wrap ClientErrInvalidHeader
                             (Text (timestamp_regression_text (Header.Timestamp h)
                                      (ConsensusState.Timestamp c)))
                      else Wrap ErrInvalidHeader (ErrorText e)))"
      by (rule CheckHeaderAndUpdateState_rejects)
  qed
qed

theorem C4_signature_failure_witness:
  "deref example_heap (ClientState.ConsensusState example_cs) = Some (example_heap ! 0) \<and>
   GetPubKey example_env (example_heap ! 0) = Return (Inr [1]) \<and>
   HeaderSignBytes example_env example_other_key_header = Return (Inr [2, 5, 100]) \<and>
   Header.Sequence example_other_key_header = ClientState.Sequence example_cs \<and>
   \<not> Header.Timestamp example_other_key_header < ConsensusState.Timestamp (example_heap ! 0) \<and>
   UnmarshalSignatureData example_env (Header.Signature example_other_key_header) =
     Return (Inr [2, 2, 5, 100]) \<and>
   VerifySignature example_env [1] [2, 5, 100] [2, 2, 5, 100] =
     Return (Some example_verify_error) \<and>
   VerifySignature example_env (NewPublicKey example_other_key_header) [2, 5, 100]
       [2, 2, 5, 100] = Return None \<and>
   CheckHeaderAndUpdateState example_env example_heap example_cs
       (HeaderP (Some example_other_key_header)) =
     Return (example_heap, None, None,
       Some (Wrap ErrInvalidHeader (ErrorText example_verify_error))) \<and>
   HeaderSignBytes example_env example_malformed_header = Return (Inr [2, 5, 100]) \<and>
   Header.Sequence example_malformed_header = ClientState.Sequence example_cs \<and>
   \<not> Header.Timestamp example_malformed_header < ConsensusState.Timestamp (example_heap ! 0) \<and>
   UnmarshalSignatureData example_env (Header.Signature example_malformed_header) =
     Return (Inl example_decode_error) \<and>
   CheckHeaderAndUpdateState example_env example_heap example_cs
       (HeaderP (Some example_malformed_header)) =
     Return (example_heap, None, None, Some example_decode_error) \<and>
   HeaderSignBytes example_env example_stale_other_key_header = Return (Inr [2, 4, 100]) \<and>
   UnmarshalSignatureData example_env (Header.Signature example_stale_other_key_header) =
     Return (Inr [2, 2, 4, 100]) \<and>
   VerifySignature example_env [1] [2, 4, 100] [2, 2, 4, 100] =
     Return (Some example_verify_error) \<and>
   CheckHeaderAndUpdateState example_env example_heap example_cs
       (HeaderP (Some example_stale_other_key_header)) =
     Return (example_heap, None, None,
       Some (Wrap ClientErrInvalidHeader
         (Text ''header sequence does not match the client state sequence (4 != 5)'')))"
  using C4_signature_failure [of example_heap example_cs "example_heap ! 0" example_env
          example_other_key_header "[2, 5, 100]" "[1]" "[2, 2, 5, 100]" example_verify_error]
    C4_signature_failure [of example_heap example_cs "example_heap ! 0" example_env
          example_malformed_header "[2, 5, 100]" "[1]" "[]" example_decode_error]
    C4_signature_failure [of example_heap example_cs "example_heap ! 0" example_env
          example_stale_other_key_header "[2, 4, 100]" "[1]" "[2, 2, 4, 100]"
          example_verify_error]
  by (simp add: example_defs deref_def sequence_mismatch_text_def decimal.simps)

subsection \<open>Misbehaviour proofs and other header types\<close>

lemma VerifyHeader_duplicate_signatures_accepts:
  "verifySignatureAndData env heap cs d (SignatureOne d) = Return None \<Longrightarrow>
   verifySignatureAndData env heap cs d (SignatureTwo d) = Return None \<Longrightarrow>
   VerifyHeader env heap cs (DuplicateSignaturesP (Some d)) = Return None"
  by (simp add: VerifyHeader.simps)

lemma VerifyHeader_signature_one_fails:
  "verifySignatureAndData env heap cs d (SignatureOne d) = Return (Some e) \<Longrightarrow>
   VerifyHeader env heap cs (DuplicateSignaturesP (Some d)) =
     Return (Some (Wrap e (Text ''failed to verify signature one'')))"
  by (simp add: VerifyHeader.simps)

lemma VerifyHeader_signature_two_fails:
  "verifySignatureAndData env heap cs d (SignatureOne d) = Return None \<Longrightarrow>
   verifySignatureAndData env heap cs d (SignatureTwo d) = Return (Some e) \<Longrightarrow>
   VerifyHeader env heap cs (DuplicateSignaturesP (Some d)) =
     Return (Some (Wrap e (Text ''failed to verify signature two'')))"
  by (simp add: VerifyHeader.simps)

lemma VerifyHeader_other_header:
  "VerifyHeader env heap cs (OtherHeader s) =
     Return (Some (Wrap SdkErrInvalidType (Text (''unexpected type for header: '' @ s))))"
  by (simp add: VerifyHeader.simps)

lemma CheckHeaderAndUpdateState_other_header:
  "CheckHeaderAndUpdateState env heap cs (OtherHeader s) =
     Return (heap, None, None,
       Some (Wrap SdkErrInvalidType (Text (''unexpected type for header: '' @ s))))"
  by (simp add: CheckHeaderAndUpdateState_rejects VerifyHeader_other_header)

lemma CheckHeaderAndUpdateState_duplicate_signatures_verified:
  "verifySignatureAndData env heap cs d (SignatureOne d) = Return None \<Longrightarrow>
   verifySignatureAndData env heap cs d (SignatureTwo d) = Return None \<Longrightarrow>
   CheckHeaderAndUpdateState env heap cs (DuplicateSignaturesP (Some d)) =
     Return (heap, None, None, None)"
  by (simp add: CheckHeaderAndUpdateState_no_header VerifyHeader_duplicate_signatures_accepts)

lemma verifySignatureAndData_spec_verdict:
  assumes "deref heap (ClientState.ConsensusState cs) = Some c"
    and "GetPubKey env c = Return (Inr publicKey)"
    and "UnmarshalSignatureData env (SignatureAndData.Signature s) = Return (Inr sigData)"
    and "VerifySignature env publicKey
           (BuildSignBytes (SignatureAndData.Diversifier s) (SignatureAndData.Sequence s)
              (SignatureAndData.Timestamp s) (Data s)) sigData = Return r"
  shows "verifySignatureAndData_spec BuildSignBytes env heap cs d (Some s) =
           Return (if r = None then None else Some ErrInvalidSignature)"
  using assms by (cases r) (simp_all add: verifySignatureAndData_spec_def)

lemma example_env_helper:
  "verifySignatureAndData example_env =
     verifySignatureAndData_spec example_sign_bytes example_env"
  by (intro ext)
    (simp add: example_env_def verifySignatureAndData_spec_def
       cong: option.case_cong outcome.case_cong sum.case_cong)

text \<open>
  Claim C6. With the helper of the specification: each of the two signatures is
  verified against the key of the current consensus state, over its own sign bytes; if
  either verification fails, the proof is rejected with \<^verbatim>\<open>ErrInvalidSignature\<close> wrapped
  with the position of the failing signature, no state is returned and the heap is
  unchanged.
\<close>

theorem C6_either_signature_fails:
  assumes "verifySignatureAndData env = verifySignatureAndData_spec BuildSignBytes env"
    and "deref heap (ClientState.ConsensusState cs) = Some c"
    and "GetPubKey env c = Return (Inr publicKey)"
    and "SignatureOne d = Some s1"
    and "SignatureTwo d = Some s2"
    and "UnmarshalSignatureData env (SignatureAndData.Signature s1) = Return (Inr sig1)"
    and "UnmarshalSignatureData env (SignatureAndData.Signature s2) = Return (Inr sig2)"
    and "VerifySignature env publicKey
           (BuildSignBytes (SignatureAndData.Diversifier s1) (SignatureAndData.Sequence s1)
              (SignatureAndData.Timestamp s1) (Data s1)) sig1 = Return r1"
    and "VerifySignature env publicKey
           (BuildSignBytes (SignatureAndData.Diversifier s2) (SignatureAndData.Sequence s2)
              (SignatureAndData.Timestamp s2) (Data s2)) sig2 = Return r2"
    and "r1 \<noteq> None \<or> r2 \<noteq> None"
  shows "\<exists>t. CheckHeaderAndUpdateState env heap cs (DuplicateSignaturesP (Some d)) =
               Return (heap, None, None, Some (Wrap ErrInvalidSignature (Text t)))"
proof -
  have one: "verifySignatureAndData env heap cs d (SignatureOne d) =
               Return (if r1 = None then None else Some ErrInvalidSignature)"
    using assms by (simp add: verifySignatureAndData_spec_verdict)
  have two: "verifySignatureAndData env heap cs d (SignatureTwo d) =
               Return (if r2 = None then None else Some ErrInvalidSignature)"
    using assms by (simp add: verifySignatureAndData_spec_verdict)
  show ?thesis
  proof (cases "r1 = None")
    case False
    with one have "VerifyHeader env heap cs (DuplicateSignaturesP (Some d)) =
        Return (Some (Wrap ErrInvalidSignature (Text ''failed to verify signature one'')))"
      by (simp add: VerifyHeader_signature_one_fails)
    then show ?thesis by (simp add: CheckHeaderAndUpdateState_rejects)
  next
    case True
    with assms(10) have "r2 \<noteq> None" by simp
    with one two True
    have "VerifyHeader env heap cs (DuplicateSignaturesP (Some d)) =
        Return (Some (Wrap ErrInvalidSignature (Text ''failed to verify signature two'')))"
      by (simp add: VerifyHeader_signature_two_fails)
    then show ?thesis by (simp add: CheckHeaderAndUpdateState_rejects)
  qed
qed

theorem C6_either_signature_fails_witness:
  "verifySignatureAndData example_env =
     verifySignatureAndData_spec example_sign_bytes example_env \<and>
   deref example_heap (ClientState.ConsensusState example_cs) = Some (example_heap ! 0) \<and>
   GetPubKey example_env (example_heap ! 0) = Return (Inr [1]) \<and>
   SignatureOne example_forged_proof = Some (example_statement [1] [7]) \<and>
   SignatureTwo example_forged_proof = Some (example_statement [9] [8]) \<and>
   UnmarshalSignatureData example_env
       (SignatureAndData.Signature (example_statement [1] [7])) =
     Return (Inr ([1] @ example_sign_bytes ''solo'' 5 100 [7])) \<and>
   UnmarshalSignatureData example_env
       (SignatureAndData.Signature (example_statement [9] [8])) =
     Return (Inr ([9] @ example_sign_bytes ''solo'' 5 100 [8])) \<and>
   VerifySignature example_env [1] (example_sign_bytes ''solo'' 5 100 [7])
       ([1] @ example_sign_bytes ''solo'' 5 100 [7]) = Return None \<and>
   VerifySignature example_env [1] (example_sign_bytes ''solo'' 5 100 [8])
       ([9] @ example_sign_bytes ''solo'' 5 100 [8]) = Return (Some example_verify_error) \<and>
   (\<exists>t. CheckHeaderAndUpdateState example_env example_heap example_cs
           (DuplicateSignaturesP (Some example_forged_proof)) =
         Return (example_heap, None, None, Some (Wrap ErrInvalidSignature (Text t))))"
  using C6_either_signature_fails [of example_env example_sign_bytes example_heap example_cs
          "example_heap ! 0" "[1]" example_forged_proof
          "example_statement [1] [7]" "example_statement [9] [8]"
          "[1] @ example_sign_bytes ''solo'' 5 100 [7]"
          "[9] @ example_sign_bytes ''solo'' 5 100 [8]"
          None "Some example_verify_error"]
    example_env_helper
  by (simp add: example_defs deref_def example_statement_def example_sign_bytes_def
        example_forged_proof_def)

text \<open>
  The claim as first stated in C7 asks that a proof whose two verified statements have
  the same payload be rejected with a no-equivocation error. A proof that holds the
  same verified statement twice passes \<^verbatim>\<open>VerifyHeader\<close>.
\<close>

theorem C7_identical_payloads_counterexample:
  "SignatureOne example_same_proof = SignatureTwo example_same_proof \<and>
   verifySignatureAndData example_env example_heap example_cs example_same_proof
       (SignatureOne example_same_proof) = Return None \<and>
   VerifyHeader example_env example_heap example_cs
       (DuplicateSignaturesP (Some example_same_proof)) = Return None"
  by (simp add: VerifyHeader.simps example_defs example_proof_defs deref_def)

text \<open>
  Claim C7, amended. A proof passes \<^verbatim>\<open>VerifyHeader\<close> with no error exactly when its two
  signatures both verify, whether the two signed payloads are identical or distinct:
  the function compares no payloads and has no no-equivocation error.
\<close>

theorem C7_no_payload_comparison:
  "VerifyHeader env heap cs (DuplicateSignaturesP (Some d)) = Return None \<longleftrightarrow>
     verifySignatureAndData env heap cs d (SignatureOne d) = Return None \<and>
     verifySignatureAndData env heap cs d (SignatureTwo d) = Return None"
  by (simp add: VerifyHeader.simps split: outcome.splits option.splits)

theorem C7_no_payload_comparison_witness:
  "Data (the (SignatureOne example_same_proof)) = Data (the (SignatureTwo example_same_proof)) \<and>
   verifySignatureAndData example_env example_heap example_cs example_same_proof
       (SignatureOne example_same_proof) = Return None \<and>
   verifySignatureAndData example_env example_heap example_cs example_same_proof
       (SignatureTwo example_same_proof) = Return None \<and>
   VerifyHeader example_env example_heap example_cs
       (DuplicateSignaturesP (Some example_same_proof)) = Return None \<and>
   Data (the (SignatureOne example_proof)) \<noteq> Data (the (SignatureTwo example_proof)) \<and>
   verifySignatureAndData example_env example_heap example_cs example_proof
       (SignatureOne example_proof) = Return None \<and>
   verifySignatureAndData example_env example_heap example_cs example_proof
       (SignatureTwo example_proof) = Return None \<and>
   VerifyHeader example_env example_heap example_cs
       (DuplicateSignaturesP (Some example_proof)) = Return None"
  using C7_no_payload_comparison [of example_env example_heap example_cs example_same_proof]
    C7_no_payload_comparison [of example_env example_heap example_cs example_proof]
  by (simp add: example_defs example_proof_defs deref_def)

text \<open>
  Claim C8 at a misbehaviour proof whose two signatures verify: \<^verbatim>\<open>VerifyHeader\<close> returns
  nil, the type assertion to \<^verbatim>\<open>*Header\<close> fails, and the call returns no client state,
  no consensus state and no error. (A value of any other type is an error, by
  \<open>CheckHeaderAndUpdateState_other_header\<close>.)
\<close>

theorem C8_verified_proof_returns_nothing:
  "CheckHeaderAndUpdateState example_env example_heap example_cs
       (DuplicateSignaturesP (Some example_proof)) =
     Return (example_heap, None, None, None)"
  by (simp add: CheckHeaderAndUpdateState_def VerifyHeader.simps example_defs
        example_proof_defs deref_def)

end
